theory Spec2Isabelle
  imports Main "HOL-Library.Word"
begin

section \<open>concurrent-downloader: a shallow embedding of \<open>src/concurrent-downloader.py\<close>\<close>

text \<open>
  The script probes a URL for its size, plans byte ranges, submits one \<open>download_chunk\<close>
  task per range to a thread pool, and then walks the futures in submission order, copying
  each staged chunk to the output.

  What lies outside the script is a parameter of the model:
  \<^item> \<open>urllib.request.urlopen\<close> is a function from the URL and the optional \<open>Range\<close> header
    to either the exception it raises or the response object; \<open>default_opener\<close> is the
    function the script really calls, over a server;
  \<^item> \<open>tempfile.mktemp\<close> is a supply of path names: the name returned by the \<open>i\<close>-th call
    of a session;
  \<^item> the file system, the output stream, the log of \<open>executor.submit\<close> calls and the log
    of \<open>Future.cancel\<close> calls are the fields of an explicit \<open>world\<close>.
\<close>

subsection \<open>Data\<close>

type_synonym byte = "8 word"

text \<open>
  The response object (an \<open>http.client.HTTPResponse\<close>), with the attributes it has and the
  script reads: \<open>res.status\<close>, \<open>res.reason\<close>, \<open>head_res.headers["content-length"]\<close> (\<open>None\<close>
  when the header is absent) and \<open>res.read()\<close>. The object has no attribute \<open>message\<close>, which
  line 21 reads as well.
\<close>

record response =
  status :: int
  reason :: string
  content_length :: "string option"
  body :: "byte list"

text \<open>
  One constructor for each way an exception leaves the script:
  \<^item> \<open>TransportError\<close>: the request cannot be completed, \<open>urlopen\<close> raises \<open>URLError\<close>;
  \<^item> \<open>HTTPError\<close>: \<open>urllib.error.HTTPError\<close> with its code and reason, raised by \<open>urlopen\<close> for
    a response whose status is not a success;
  \<^item> \<open>SizeUnknownError\<close>: \<open>Exception("cannot determine total download size")\<close>, line 35;
  \<^item> \<open>ValueError\<close>: \<open>int(...)\<close> on a string that is no integer literal (line 36), and
    \<open>ThreadPoolExecutor(max_workers=n)\<close> with \<open>n <= 0\<close> (line 38);
  \<^item> \<open>AttributeError\<close>: line 21 builds its message from \<open>res.status\<close>, \<open>res.reason\<close> and
    \<open>res.message\<close>; the response object has no attribute \<open>message\<close>, so the line raises
    \<open>AttributeError\<close> before its own \<open>Exception\<close> exists;
  \<^item> \<open>UnsupportedRangeError\<close>: \<open>Exception("partial content not supported")\<close>, line 23;
  \<^item> \<open>FileNotFoundError\<close>: \<open>open(chunk_file, "rb")\<close> on a path that does not exist, line 54.
\<close>

datatype error =
    TransportError string
  | HTTPError int string
  | SizeUnknownError
  | ValueError
  | AttributeError
  | UnsupportedRangeError
  | FileNotFoundError

type_synonym urlopen = "string \<Rightarrow> (int \<times> int) option \<Rightarrow> error + response"

text \<open>
  \<open>urllib.request.urlopen\<close> as the script calls it, with the default opener, over a server.
  The server's answer is the final response, after the opener has followed the redirects
  it can follow, or the failure of the transport. The opener's \<open>HTTPErrorProcessor\<close> returns
  a response only when its status is in \<open>200 .. 299\<close>; for every other status \<open>urlopen\<close>
  raises \<open>HTTPError\<close> with the status and the reason.
\<close>

definition default_opener :: "urlopen \<Rightarrow> urlopen" where
  "default_opener server url rng =
     (case server url rng of
        Inl e \<Rightarrow> Inl e
      | Inr res \<Rightarrow>
          if 200 \<le> status res \<and> status res < 300 then Inr res
          else Inl (HTTPError (status res) (reason res)))"

type_synonym filesystem = "string \<rightharpoonup> byte list"

text \<open>A submitted task: the arguments \<open>start\<close>, \<open>end\<close> and \<open>chunk_file\<close> of line 43.\<close>

type_synonym task = "int \<times> int \<times> string"

text \<open>
  A future after the pool has shut down. Leaving the \<open>with ThreadPoolExecutor(...)\<close> block
  calls \<open>shutdown(wait=True)\<close>, so when line 46 is reached every future is finished: it
  holds the value \<open>download_chunk\<close> returned or the exception it raised. \<open>fid\<close> is the
  identity of the object (its position in \<open>futures\<close>), which \<open>f is not future\<close> compares.
\<close>

datatype future = Future (fid: nat) (outcome: "error + (int \<times> int)")

record world =
  files :: filesystem
  sink :: "byte list"
  submitted :: "task list"
  cancelled :: "nat list"

subsection \<open>\<open>int(s)\<close> on a header value\<close>

text \<open>
  Python's \<open>int\<close> on a string, base 10, for ASCII input: surrounding whitespace is
  stripped, one sign is allowed, then decimal digits, with single underscores between
  digits. Anything else raises \<open>ValueError\<close> (\<open>None\<close> here).
\<close>

definition is_space :: "char \<Rightarrow> bool" where
  "is_space c = (c \<in> set [CHR '' '', CHR 0x09, CHR 0x0A, CHR 0x0B, CHR 0x0C, CHR 0x0D])"

definition digit_val :: "char \<Rightarrow> nat option" where
  "digit_val = map_of (zip ''0123456789'' [0, 1, 2, 3, 4, 5, 6, 7, 8, 9])"

definition strip :: "string \<Rightarrow> string" where
  "strip s = rev (dropWhile is_space (rev (dropWhile is_space s)))"

fun parse_digits :: "nat \<Rightarrow> string \<Rightarrow> nat option" where
  "parse_digits acc [] = Some acc"
| "parse_digits acc [c] =
     (case digit_val c of Some d \<Rightarrow> Some (acc * 10 + d) | None \<Rightarrow> None)"
| "parse_digits acc (c # c' # cs) =
     (case digit_val c of
        Some d \<Rightarrow> parse_digits (acc * 10 + d) (c' # cs)
      | None \<Rightarrow>
          (if c = CHR ''_'' then
             (case digit_val c' of Some d' \<Rightarrow> parse_digits acc (c' # cs) | None \<Rightarrow> None)
           else None))"

fun parse_unsigned :: "string \<Rightarrow> nat option" where
  "parse_unsigned [] = None"
| "parse_unsigned (c # cs) =
     (case digit_val c of Some d \<Rightarrow> parse_digits d cs | None \<Rightarrow> None)"

definition py_int :: "string \<Rightarrow> int option" where
  "py_int s =
     (case strip s of
        [] \<Rightarrow> None
      | c # cs \<Rightarrow>
          if c = CHR ''-'' then map_option (\<lambda>n. - int n) (parse_unsigned cs)
          else if c = CHR ''+'' then map_option int (parse_unsigned cs)
          else map_option int (parse_unsigned (c # cs)))"

subsection \<open>\<open>download_chunk\<close> (lines 16-29)\<close>

definition download_chunk ::
  "urlopen \<Rightarrow> string \<Rightarrow> int \<Rightarrow> int \<Rightarrow> string \<Rightarrow> filesystem
     \<Rightarrow> (error + (int \<times> int)) \<times> filesystem" where
  "download_chunk urlopen url range_start range_end outfile fs =
     (case urlopen url (Some (range_start, range_end)) of
        Inl e \<Rightarrow> (Inl e, fs)
      | Inr res \<Rightarrow>
          if status res \<ge> 400 then (Inl AttributeError, fs)
          else if status res \<noteq> 206 then (Inl UnsupportedRangeError, fs)
          else (Inr (range_start, range_end), fs(outfile \<mapsto> body res)))"

subsection \<open>\<open>download\<close> (lines 32-55)\<close>

text \<open>
  The planning loop of lines 39-45. \<open>futures\<close> collects the submitted tasks; the number
  of \<open>mktemp\<close> calls made so far is its length; \<open>total_size\<close> is the script's \<open>size\<close>.
  The loop has no bound of its own, so not returning is the value \<open>None\<close>.
\<close>

partial_function (option) submit_loop ::
  "(nat \<Rightarrow> string) \<Rightarrow> int \<Rightarrow> int \<Rightarrow> int \<Rightarrow> task list \<Rightarrow> task list option" where
  "submit_loop mktemp chunk_size total_size start futures =
     (if start < total_size then
        submit_loop mktemp chunk_size total_size
          (min (start + chunk_size - 1) total_size + 1)
          (futures @ [(start, min (start + chunk_size - 1) total_size, mktemp (length futures))])
      else Some futures)"

text \<open>
  The pool, from the submissions to the end of the \<open>with\<close> block. Each task runs
  \<open>download_chunk\<close> once; its outcome does not depend on the file system, and its only
  effect is the write to its own staging file. The workers may run the tasks in any
  order; with staging names that differ, every order leaves the same files, and the tasks
  are run here in submission order. The \<open>i\<close>-th future receives the outcome of the \<open>i\<close>-th
  task.
\<close>

fun executor_run ::
  "urlopen \<Rightarrow> string \<Rightarrow> nat \<Rightarrow> task list \<Rightarrow> filesystem
     \<Rightarrow> (future \<times> string) list \<times> filesystem" where
  "executor_run urlopen url i [] fs = ([], fs)"
| "executor_run urlopen url i ((range_start, range_end, chunk_file) # ts) fs =
     (case download_chunk urlopen url range_start range_end chunk_file fs of
        (r, fs') \<Rightarrow>
          (case executor_run urlopen url (Suc i) ts fs' of
             (futs, fs'') \<Rightarrow> ((Future i r, chunk_file) # futs, fs'')))"

text \<open>
  The loop of lines 46-55 over \<open>futures\<close>. Every future is finished, so \<open>future.result\<close>
  returns at once or re-raises the task's exception, and its timeout never expires. In the
  handler \<open>cancel\<close> is called on every other future of the whole list (the calls are
  logged in \<open>cancelled\<close>; on a finished future they change nothing), then the exception
  propagates. Otherwise the staged file is read and written to \<open>out\<close>. No file is removed.
\<close>

fun result_loop ::
  "(future \<times> string) list \<Rightarrow> (future \<times> string) list \<Rightarrow> world \<Rightarrow> (error + unit) \<times> world" where
  "result_loop futures [] w = (Inr (), w)"
| "result_loop futures ((future, chunk_file) # rest) w =
     (case outcome future of
        Inl e \<Rightarrow>
          (Inl e,
           w\<lparr>cancelled := cancelled w @
               map fid (filter (\<lambda>f. fid f \<noteq> fid future) (map fst futures))\<rparr>)
      | Inr r \<Rightarrow>
          (case files w chunk_file of
             None \<Rightarrow> (Inl FileNotFoundError, w)
           | Some chunk \<Rightarrow> result_loop futures rest (w\<lparr>sink := sink w @ chunk\<rparr>)))"

text \<open>Lines 33-36: the probe.\<close>

definition probe :: "urlopen \<Rightarrow> string \<Rightarrow> error + int" where
  "probe urlopen url =
     (case urlopen url None of
        Inl e \<Rightarrow> Inl e
      | Inr head_res \<Rightarrow>
          (case content_length head_res of
             None \<Rightarrow> Inl SizeUnknownError
           | Some s \<Rightarrow>
               if s = [] then Inl SizeUnknownError
               else (case py_int s of None \<Rightarrow> Inl ValueError | Some total_size \<Rightarrow> Inr total_size)))"

text \<open>
  Lines 37-45 with the pool's shutdown: the tasks are planned and submitted, and all of
  them have run when the \<open>with\<close> block is left.
\<close>

definition dispatch ::
  "urlopen \<Rightarrow> (nat \<Rightarrow> string) \<Rightarrow> string \<Rightarrow> world \<Rightarrow> int \<Rightarrow> int
     \<Rightarrow> ((future \<times> string) list \<times> world) option" where
  "dispatch urlopen mktemp url w chunk_size total_size =
     (case submit_loop mktemp chunk_size total_size 0 [] of
        None \<Rightarrow> None
      | Some tasks \<Rightarrow>
          (case executor_run urlopen url 0 tasks (files w) of
             (futures, fs) \<Rightarrow>
               Some (futures, w\<lparr>files := fs, submitted := submitted w @ tasks\<rparr>)))"

definition download ::
  "urlopen \<Rightarrow> (nat \<Rightarrow> string) \<Rightarrow> string \<Rightarrow> world \<Rightarrow> int \<Rightarrow> int
     \<Rightarrow> ((error + unit) \<times> world) option" where
  "download urlopen mktemp url w chunk_size max_workers =
     (case probe urlopen url of
        Inl e \<Rightarrow> Some (Inl e, w)
      | Inr total_size \<Rightarrow>
          if max_workers \<le> 0 then Some (Inl ValueError, w)
          else
            (case dispatch urlopen mktemp url w chunk_size total_size of
               None \<Rightarrow> None
             | Some (futures, w') \<Rightarrow> Some (result_loop futures futures w')))"

text \<open>
  The tasks submitted during a session that took the world from \<open>w\<close> to \<open>w'\<close>: what the
  session appended to the submission log.
\<close>

definition session_tasks :: "world \<Rightarrow> world \<Rightarrow> task list" where
  "session_tasks w w' = drop (length (submitted w)) (submitted w')"

subsection \<open>Test inputs\<close>

text \<open>
  Concrete inputs for the examples below. \<open>test_server cl bs k\<close> is a server: it answers
  the probe with status 200 and the \<open>content-length\<close> header \<open>cl\<close>; it answers a ranged
  request whose start lies below \<open>k\<close> with status 206 and the requested bytes of \<open>bs\<close> (as
  many as there are), and any other ranged request with status 404.
  \<open>test_server_from cl bs k\<close> is the same server with the two kinds of ranged requests
  exchanged: status 404 below \<open>k\<close>, status 206 from \<open>k\<close> on. \<open>status_server st rs bs\<close> answers
  every request with the status \<open>st\<close>, the reason \<open>rs\<close> and the body \<open>bs\<close>. The script
  reaches each of them through \<open>urlopen\<close>.
\<close>

definition test_server :: "string option \<Rightarrow> byte list \<Rightarrow> int \<Rightarrow> urlopen" where
  "test_server cl bs k url rng =
     (case rng of
        None \<Rightarrow>
          Inr \<lparr>status = 200, reason = ''OK'', content_length = cl, body = bs\<rparr>
      | Some (a, b) \<Rightarrow>
          if a < k then
            Inr \<lparr>status = 206, reason = ''Partial Content'',
                 content_length = None, body = take (nat (b + 1 - a)) (drop (nat a) bs)\<rparr>
          else
            Inr \<lparr>status = 404, reason = ''Not Found'',
                 content_length = None, body = []\<rparr>)"

definition test_server_from :: "string option \<Rightarrow> byte list \<Rightarrow> int \<Rightarrow> urlopen" where
  "test_server_from cl bs k url rng =
     (case rng of
        None \<Rightarrow>
          Inr \<lparr>status = 200, reason = ''OK'', content_length = cl, body = bs\<rparr>
      | Some (a, b) \<Rightarrow>
          if a < k then
            Inr \<lparr>status = 404, reason = ''Not Found'',
                 content_length = None, body = []\<rparr>
          else
            Inr \<lparr>status = 206, reason = ''Partial Content'',
                 content_length = None, body = take (nat (b + 1 - a)) (drop (nat a) bs)\<rparr>)"

definition status_server :: "int \<Rightarrow> string \<Rightarrow> byte list \<Rightarrow> urlopen" where
  "status_server st rs bs url rng =
     Inr \<lparr>status = st, reason = rs, content_length = None, body = bs\<rparr>"

definition test_urlopen :: "string option \<Rightarrow> byte list \<Rightarrow> int \<Rightarrow> urlopen" where
  "test_urlopen cl bs k = default_opener (test_server cl bs k)"

definition test_urlopen_from :: "string option \<Rightarrow> byte list \<Rightarrow> int \<Rightarrow> urlopen" where
  "test_urlopen_from cl bs k = default_opener (test_server_from cl bs k)"

definition test_mktemp :: "nat \<Rightarrow> string" where
  "test_mktemp i = ''/tmp/tmp'' @ replicate i (CHR ''x'')"

definition empty_world :: world where
  "empty_world = \<lparr>files = Map.empty, sink = [], submitted = [], cancelled = []\<rparr>"

section \<open>Properties\<close>

subsection \<open>The planning loop\<close>

lemma submit_loop_exit: "\<not> start < n \<Longrightarrow> submit_loop mk c n start acc = Some acc"
  by (subst submit_loop.simps) simp

lemma submit_loop_step:
  "start < n \<Longrightarrow> submit_loop mk c n start acc =
     submit_loop mk c n (min (start + c - 1) n + 1)
       (acc @ [(start, min (start + c - 1) n, mk (length acc))])"
  by (subst submit_loop.simps) simp

text \<open>
  With a positive chunk size the loop returns, and its plan has a closed form: chunk \<open>i\<close>
  starts at \<open>s + i * c\<close>, and its end is clamped to \<open>n\<close>.
\<close>

lemma submit_loop_closed:
  assumes c: "1 \<le> c" and s: "s \<le> n"
  shows "submit_loop mk c n s acc =
    Some (acc @ map (\<lambda>i. (s + int i * c, min (s + int i * c + c - 1) n, mk (length acc + i)))
                    [0 ..< nat ((n - s + c - 1) div c)])"
  using s
proof (induction "nat (n - s)" arbitrary: s acc rule: less_induct)
  case less
  show ?case
  proof (cases "s < n")
    case False
    with less.prems have "s = n" by simp
    moreover have "(c - 1) div c = 0" using c by (simp add: div_pos_pos_trivial)
    ultimately show ?thesis by (simp add: submit_loop_exit)
  next
    case True
    show ?thesis
    proof (cases "s + c - 1 < n")
      case True
      have k: "nat ((n - s + c - 1) div c) = Suc (nat ((n - (s + c) + c - 1) div c))"
      proof -
        have "n - s + c - 1 = (n - (s + c) + c - 1) + 1 * c" by simp
        then have "(n - s + c - 1) div c = (n - (s + c) + c - 1) div c + 1"
          using c by (metis div_mult_self1 add.commute not_one_le_zero)
        moreover have "0 \<le> (n - (s + c) + c - 1) div c"
          using c True by (simp add: pos_imp_zdiv_nonneg_iff)
        ultimately show ?thesis by simp
      qed
      have m: "min (s + c - 1) n = s + c - 1" using True by simp
      have "submit_loop mk c n s acc =
            submit_loop mk c n (s + c) (acc @ [(s, s + c - 1, mk (length acc))])"
        using \<open>s < n\<close> by (simp add: submit_loop_step m)
      also have "\<dots> = Some ((acc @ [(s, s + c - 1, mk (length acc))]) @
          map (\<lambda>i. (s + c + int i * c, min (s + c + int i * c + c - 1) n,
                    mk (length (acc @ [(s, s + c - 1, mk (length acc))]) + i)))
              [0 ..< nat ((n - (s + c) + c - 1) div c)])"
        using True c \<open>s < n\<close> by (intro less.hyps) auto
      finally show ?thesis
        unfolding k map_upt_Suc using m by (simp add: algebra_simps)
    next
      case False
      have m: "min (s + c - 1) n = n" using False by simp
      have k: "nat ((n - s + c - 1) div c) = 1"
      proof -
        have "n - s + c - 1 = (n - s - 1) + 1 * c" by simp
        then have "(n - s + c - 1) div c = (n - s - 1) div c + 1"
          using c by (metis div_mult_self1 add.commute not_one_le_zero)
        moreover have "(n - s - 1) div c = 0"
          using False \<open>s < n\<close> by (simp add: div_pos_pos_trivial)
        ultimately show ?thesis by simp
      qed
      have "submit_loop mk c n s acc =
            submit_loop mk c n (n + 1) (acc @ [(s, n, mk (length acc))])"
        using \<open>s < n\<close> by (simp add: submit_loop_step m)
      also have "\<dots> = Some (acc @ [(s, n, mk (length acc))])"
        by (simp add: submit_loop_exit)
      finally show ?thesis unfolding k using m by simp
    qed
  qed
qed

text \<open>
  With a chunk size below 1 and bytes left to plan, \<open>start\<close> never increases, and the loop
  does not return.
\<close>

lemma submit_loop_returns_only_if:
  assumes "submit_loop mk c n s acc = Some r"
  shows "\<not> (c < 1 \<and> s < n)"
proof (rule submit_loop.raw_induct
    [where P = "\<lambda>mk c n s acc r. \<not> (c < 1 \<and> s < n)", OF _ assms])
  fix f :: "(nat \<Rightarrow> string) \<Rightarrow> int \<Rightarrow> int \<Rightarrow> int \<Rightarrow> task list \<Rightarrow> task list option"
  fix mk c n s acc r
  assume IH: "\<And>mk c n s acc r. f mk c n s acc = Some r \<Longrightarrow> \<not> (c < 1 \<and> s < n)"
  assume step: "(if s < n then f mk c n (min (s + c - 1) n + 1)
                   (acc @ [(s, min (s + c - 1) n, mk (length acc))])
                 else Some acc) = Some r"
  show "\<not> (c < 1 \<and> s < n)"
  proof
    assume a: "c < 1 \<and> s < n"
    then have "min (s + c - 1) n + 1 = s + c" by simp
    with step a have "f mk c n (s + c) (acc @ [(s, min (s + c - 1) n, mk (length acc))]) = Some r"
      by simp
    from IH[OF this] a show False by arith
  qed
qed

lemma submit_loop_diverges: "c < 1 \<Longrightarrow> s < n \<Longrightarrow> submit_loop mk c n s acc = None"
  using submit_loop_returns_only_if[of mk c n s acc] by (cases "submit_loop mk c n s acc") auto

lemma ceil_div_mult:
  fixes c n :: int
  assumes c: "1 \<le> c"
  shows "(n + c - 1) div c * c - 1 = (if c dvd n then n - 1 else n + c - 1 - n mod c)"
proof (cases "c dvd n")
  case True
  then obtain q where q: "n = c * q" by (auto simp: dvd_def)
  have "n + c - 1 = c * q + (c - 1)" using q by simp
  then have "(n + c - 1) div c = q"
    by (rule int_div_pos_eq) (use c in simp_all)
  then show ?thesis using True q by (simp add: mult.commute)
next
  case False
  define d where "d = n div c"
  define r where "r = n mod c"
  have n: "n = c * d + r" unfolding d_def r_def by simp
  have "0 \<le> r" and r2: "r < c" using c by (simp_all add: r_def)
  moreover have "r \<noteq> 0" using False by (simp add: r_def dvd_eq_mod_eq_0)
  ultimately have r1: "0 \<le> r - 1" by simp
  have "n + c - 1 = c * (d + 1) + (r - 1)" using n by (simp add: distrib_left)
  then have "(n + c - 1) div c = d + 1"
    by (rule int_div_pos_eq) (use r1 r2 in simp_all)
  then have "(n + c - 1) div c * c - 1 = (d + 1) * c - 1" by simp
  also have "\<dots> = c * d + c - 1" by (simp add: algebra_simps)
  also have "\<dots> = n + c - 1 - r" using n by simp
  finally show ?thesis using False by (simp add: r_def)
qed

text \<open>
  The last planned range ends at the last byte, \<open>n - 1\<close>, only when the chunk size divides
  the size; otherwise it ends at \<open>n\<close>.
\<close>

lemma submit_loop_last_end:
  assumes c: "1 \<le> c" and n: "0 < n" and plan: "submit_loop mk c n 0 [] = Some tasks"
  shows "tasks \<noteq> []" and "fst (snd (last tasks)) = (if c dvd n then n - 1 else n)"
proof -
  define q where "q = (n + c - 1) div c"
  have q1: "1 \<le> q"
  proof -
    have "c div c \<le> (n + c - 1) div c" using c n by (intro zdiv_mono1) auto
    then show ?thesis using c by (simp add: q_def)
  qed
  have tasks: "tasks = map (\<lambda>i. (int i * c, min (int i * c + c - 1) n, mk i)) [0 ..< nat q]"
    using submit_loop_closed[OF c, of 0 n mk "[]"] n plan by (simp add: q_def)
  show ne: "tasks \<noteq> []" using tasks q1 by simp
  have "last tasks = (int (nat q - 1) * c, min (int (nat q - 1) * c + c - 1) n, mk (nat q - 1))"
    using tasks q1 by (simp add: last_map)
  moreover have "int (nat q - 1) * c + c - 1 = q * c - 1"
    using q1 by (simp add: algebra_simps of_nat_diff)
  ultimately have e: "fst (snd (last tasks)) = min (q * c - 1) n" by simp
  have "q * c - 1 = (if c dvd n then n - 1 else n + c - 1 - n mod c)"
    unfolding q_def by (rule ceil_div_mult[OF c])
  moreover have "n mod c < c" using c by simp
  ultimately show "fst (snd (last tasks)) = (if c dvd n then n - 1 else n)"
    using e by (auto simp: min_def)
qed

text \<open>
  The plan starts at offset 0, and every range but the last spans \<open>c\<close> bytes and is
  followed by the range that starts right after it.
\<close>

lemma submit_loop_contiguous:
  assumes c: "1 \<le> c" and n: "0 < n" and plan: "submit_loop mk c n 0 [] = Some tasks"
  shows "fst (hd tasks) = 0"
    and "\<forall>i. Suc i < length tasks \<longrightarrow>
           fst (snd (tasks ! i)) = fst (tasks ! i) + c - 1 \<and>
           fst (tasks ! Suc i) = fst (snd (tasks ! i)) + 1"
proof -
  define q where "q = (n + c - 1) div c"
  have tasks: "tasks = map (\<lambda>i. (int i * c, min (int i * c + c - 1) n, mk i)) [0 ..< nat q]"
    using submit_loop_closed[OF c, of 0 n mk "[]"] n plan by (simp add: q_def)
  have ne: "tasks \<noteq> []" using submit_loop_last_end(1)[OF c n plan] .
  then have "0 < nat q" using tasks by simp
  then show "fst (hd tasks) = 0" using tasks by (simp add: hd_map upt_conv_Cons)
  have qc: "q * c \<le> n + c - 1"
  proof -
    have "(n + c - 1) div c * c + (n + c - 1) mod c = n + c - 1"
      by (rule div_mult_mod_eq)
    moreover have "0 \<le> (n + c - 1) mod c" using c by simp
    ultimately show ?thesis unfolding q_def by linarith
  qed
  show "\<forall>i. Suc i < length tasks \<longrightarrow>
           fst (snd (tasks ! i)) = fst (tasks ! i) + c - 1 \<and>
           fst (tasks ! Suc i) = fst (snd (tasks ! i)) + 1"
  proof (intro allI impI)
    fix i
    assume "Suc i < length tasks"
    then have i: "Suc i < nat q" using tasks by simp
    then have "int i + 2 \<le> q" by simp
    then have "(int i + 2) * c \<le> q * c" using c by (intro mult_right_mono) simp_all
    with qc have "(int i + 2) * c \<le> n + c - 1" by simp
    then have le: "int i * c + c - 1 \<le> n" by (simp add: algebra_simps)
    have "tasks ! i = (int i * c, min (int i * c + c - 1) n, mk i)"
      using tasks i by simp
    moreover have "tasks ! Suc i = (int (Suc i) * c, min (int (Suc i) * c + c - 1) n, mk (Suc i))"
      using tasks i by simp
    ultimately show "fst (snd (tasks ! i)) = fst (tasks ! i) + c - 1 \<and>
           fst (tasks ! Suc i) = fst (snd (tasks ! i)) + 1"
      using le by (simp add: algebra_simps)
  qed
qed

subsection \<open>The pool and the result loop\<close>

text \<open>
  An exception of \<open>urlopen\<close> leaves \<open>download_chunk\<close> as it is, and nothing is staged. A
  response that the default opener returns has a status in \<open>200 .. 299\<close>, so the test of
  line 20 fails on it and line 21 is not reached.
\<close>

lemma download_chunk_urlopen_raises:
  "urlopen url (Some (s, e)) = Inl err \<Longrightarrow> download_chunk urlopen url s e f fs = (Inl err, fs)"
  by (simp add: download_chunk_def)

lemma default_opener_success_status:
  "default_opener server url rng = Inr res \<Longrightarrow> 200 \<le> status res \<and> status res < 300"
  by (auto simp: default_opener_def split: sum.splits if_splits)

lemma download_chunk_outcome_indep:
  "fst (download_chunk u url s e f fs) = fst (download_chunk u url s e f' fs')"
  by (simp add: download_chunk_def split: sum.splits)

lemma download_chunk_dom:
  "download_chunk u url s e f fs = (r, fs') \<Longrightarrow>
     dom fs \<subseteq> dom fs' \<and> (\<not> isl r \<longrightarrow> f \<in> dom fs')"
  by (auto simp: download_chunk_def split: sum.splits if_splits)

lemma executor_run_shape:
  "executor_run u url i ts fs = (futs, fs') \<Longrightarrow>
     map snd futs = map (\<lambda>t. snd (snd t)) ts \<and>
     map (\<lambda>p. fid (fst p)) futs = [i ..< i + length ts]"
proof (induction ts arbitrary: i fs futs fs')
  case Nil
  then show ?case by simp
next
  case (Cons t ts)
  obtain a b f where t: "t = (a, b, f)" by (cases t)
  obtain r fs1 where d: "download_chunk u url a b f fs = (r, fs1)" by fastforce
  obtain futs2 fs2 where e: "executor_run u url (Suc i) ts fs1 = (futs2, fs2)" by fastforce
  from Cons.prems t d e have futs: "futs = (Future i r, f) # futs2" by simp
  from Cons.IH[OF e] futs t show ?case by (simp add: upt_rec)
qed

lemma executor_run_length:
  "executor_run u url i ts fs = (futs, fs') \<Longrightarrow> length futs = length ts"
  using executor_run_shape[of u url i ts fs futs fs'] by (metis length_map)

lemma executor_run_outcome:
  "executor_run u url i ts fs = (futs, fs') \<Longrightarrow> j < length ts \<Longrightarrow>
     outcome (fst (futs ! j)) =
       fst (download_chunk u url (fst (ts ! j)) (fst (snd (ts ! j))) f0 fs0)"
proof (induction ts arbitrary: i fs futs fs' j)
  case Nil
  then show ?case by simp
next
  case (Cons t ts)
  obtain a b f where t: "t = (a, b, f)" by (cases t)
  obtain r fs1 where d: "download_chunk u url a b f fs = (r, fs1)" by fastforce
  obtain futs2 fs2 where e: "executor_run u url (Suc i) ts fs1 = (futs2, fs2)" by fastforce
  from Cons.prems t d e have futs: "futs = (Future i r, f) # futs2" by simp
  show ?case
  proof (cases j)
    case 0
    have "r = fst (download_chunk u url a b f fs)" using d by simp
    also have "\<dots> = fst (download_chunk u url a b f0 fs0)"
      by (rule download_chunk_outcome_indep)
    finally show ?thesis using 0 futs t by simp
  next
    case (Suc j')
    with Cons.prems have "j' < length ts" by simp
    from Cons.IH[OF e this] Suc futs show ?thesis by simp
  qed
qed

lemma executor_run_dom:
  "executor_run u url i ts fs = (futs, fs') \<Longrightarrow>
     dom fs \<subseteq> dom fs' \<and> (\<forall>p \<in> set futs. \<not> isl (outcome (fst p)) \<longrightarrow> snd p \<in> dom fs')"
proof (induction ts arbitrary: i fs futs fs')
  case Nil
  then show ?case by simp
next
  case (Cons t ts)
  obtain a b f where t: "t = (a, b, f)" by (cases t)
  obtain r fs1 where d: "download_chunk u url a b f fs = (r, fs1)" by fastforce
  obtain futs2 fs2 where e: "executor_run u url (Suc i) ts fs1 = (futs2, fs2)" by fastforce
  from Cons.prems t d e have futs: "futs = (Future i r, f) # futs2" and fs': "fs' = fs2"
    by simp_all
  from download_chunk_dom[OF d] Cons.IH[OF e] futs fs' show ?case by auto
qed

lemma result_loop_files:
  "result_loop all rest w = (r, w') \<Longrightarrow> files w' = files w \<and> submitted w' = submitted w"
proof (induction rest arbitrary: w)
  case Nil
  then show ?case by auto
next
  case (Cons p rest)
  obtain fu f where p: "p = (fu, f)" by (cases p)
  show ?case
  proof (cases "outcome fu")
    case (Inl e)
    with Cons.prems p show ?thesis by auto
  next
    case (Inr x)
    show ?thesis
    proof (cases "files w f")
      case None
      with Cons.prems p Inr show ?thesis by auto
    next
      case (Some chunk)
      with Cons.prems p Inr
      have "result_loop all rest (w\<lparr>sink := sink w @ chunk\<rparr>) = (r, w')" by simp
      from Cons.IH[OF this] show ?thesis by simp
    qed
  qed
qed

lemma result_loop_all_ok:
  "\<forall>p \<in> set rest. \<not> isl (outcome (fst p)) \<and> snd p \<in> dom (files w) \<Longrightarrow>
     result_loop all rest w =
       (Inr (), w\<lparr>sink := sink w @ concat (map (\<lambda>p. the (files w (snd p))) rest)\<rparr>)"
proof (induction rest arbitrary: w)
  case Nil
  then show ?case by simp
next
  case (Cons p rest)
  obtain fu f where p: "p = (fu, f)" by (cases p)
  from Cons.prems p obtain x chunk where x: "outcome fu = Inr x" and c: "files w f = Some chunk"
    by (cases "outcome fu") auto
  have "\<forall>p \<in> set rest. \<not> isl (outcome (fst p)) \<and>
          snd p \<in> dom (files (w\<lparr>sink := sink w @ chunk\<rparr>))"
    using Cons.prems by simp
  from Cons.IH[OF this] p x c show ?case by simp
qed

lemma result_loop_first_failure:
  "k < length rest \<Longrightarrow> outcome (fst (rest ! k)) = Inl e \<Longrightarrow>
   \<forall>i < k. \<not> isl (outcome (fst (rest ! i))) \<and> snd (rest ! i) \<in> dom (files w) \<Longrightarrow>
     result_loop all rest w =
       (Inl e, w\<lparr>sink := sink w @ concat (map (\<lambda>p. the (files w (snd p))) (take k rest)),
                 cancelled := cancelled w @
                   map fid (filter (\<lambda>g. fid g \<noteq> fid (fst (rest ! k))) (map fst all))\<rparr>)"
proof (induction rest arbitrary: w k)
  case Nil
  then show ?case by simp
next
  case (Cons p rest)
  obtain fu f where p: "p = (fu, f)" by (cases p)
  show ?case
  proof (cases k)
    case 0
    with Cons.prems p show ?thesis by simp
  next
    case (Suc k')
    from Cons.prems(3) Suc p have "\<not> isl (outcome fu) \<and> f \<in> dom (files w)"
      by (metis zero_less_Suc nth_Cons_0 fst_conv snd_conv)
    then obtain x chunk where x: "outcome fu = Inr x" and c: "files w f = Some chunk"
      by (cases "outcome fu") auto
    let ?w = "w\<lparr>sink := sink w @ chunk\<rparr>"
    have 1: "k' < length rest" using Cons.prems(1) Suc by simp
    have 2: "outcome (fst (rest ! k')) = Inl e" using Cons.prems(2) Suc by simp
    have 3: "\<forall>i < k'. \<not> isl (outcome (fst (rest ! i))) \<and> snd (rest ! i) \<in> dom (files ?w)"
      using Cons.prems(3) Suc by auto
    from Cons.IH[OF 1 2 3] p x c Suc show ?thesis by simp
  qed
qed

subsection \<open>A session\<close>

lemma download_session:
  assumes "probe urlopen url = Inr n" and "0 < max_workers"
      and "dispatch urlopen mktemp url w c n = Some (futs, w1)"
    shows "download urlopen mktemp url w c max_workers = Some (result_loop futs futs w1)"
  using assms by (simp add: download_def)

lemma dispatch_parts:
  assumes "dispatch urlopen mktemp url w c n = Some (futs, w1)"
  obtains tasks fs where "submit_loop mktemp c n 0 [] = Some tasks"
    and "executor_run urlopen url 0 tasks (files w) = (futs, fs)"
    and "w1 = w\<lparr>files := fs, submitted := submitted w @ tasks\<rparr>"
  using assms by (auto simp: dispatch_def split: option.splits prod.splits)

lemma dispatch_ids:
  assumes "dispatch urlopen mktemp url w c n = Some (futs, w1)" and "k < length futs"
  shows "fid (fst (futs ! k)) = k"
    and "map fid (filter (\<lambda>g. fid g \<noteq> k) (map fst futs)) = filter (\<lambda>i. i \<noteq> k) [0 ..< length futs]"
proof -
  from assms(1) obtain tasks fs where
    run: "executor_run urlopen url 0 tasks (files w) = (futs, fs)"
    by (rule dispatch_parts)
  have len: "length futs = length tasks" using run by (rule executor_run_length)
  have ids: "map (\<lambda>p. fid (fst p)) futs = [0 ..< length futs]"
    using executor_run_shape[OF run] len by simp
  have "fid (fst (futs ! k)) = map (\<lambda>p. fid (fst p)) futs ! k"
    using assms(2) by simp
  then show "fid (fst (futs ! k)) = k" using ids assms(2) by simp
  have "map fid (filter (\<lambda>g. fid g \<noteq> k) (map fst futs)) =
        filter (\<lambda>i. i \<noteq> k) (map fid (map fst futs))"
    by (simp add: filter_map comp_def)
  also have "map fid (map fst futs) = [0 ..< length futs]"
    using ids by (simp add: comp_def)
  finally show "map fid (filter (\<lambda>g. fid g \<noteq> k) (map fst futs)) =
      filter (\<lambda>i. i \<noteq> k) [0 ..< length futs]" .
qed

lemma dispatch_staged:
  assumes "dispatch urlopen mktemp url w c n = Some (futs, w1)"
  shows "sink w1 = sink w" and "cancelled w1 = cancelled w"
    and "dom (files w) \<subseteq> dom (files w1)"
    and "\<forall>p \<in> set futs. \<not> isl (outcome (fst p)) \<longrightarrow> snd p \<in> dom (files w1)"
proof -
  from assms obtain tasks fs where
    run: "executor_run urlopen url 0 tasks (files w) = (futs, fs)"
    and w1: "w1 = w\<lparr>files := fs, submitted := submitted w @ tasks\<rparr>"
    by (rule dispatch_parts)
  show "sink w1 = sink w" "cancelled w1 = cancelled w" using w1 by simp_all
  from executor_run_dom[OF run] w1
  show "dom (files w) \<subseteq> dom (files w1)"
    and "\<forall>p \<in> set futs. \<not> isl (outcome (fst p)) \<longrightarrow> snd p \<in> dom (files w1)"
    by simp_all
qed

lemma session_first_failure:
  assumes p: "probe urlopen url = Inr n" and m: "0 < max_workers"
      and d: "dispatch urlopen mktemp url w c n = Some (futs, w1)"
      and k: "k < length futs" and e: "outcome (fst (futs ! k)) = Inl e"
      and ok: "\<forall>i < k. \<not> isl (outcome (fst (futs ! i)))"
    shows "download urlopen mktemp url w c max_workers =
      Some (Inl e,
        w1\<lparr>sink := sink w @ concat (map (\<lambda>p. the (files w1 (snd p))) (take k futs)),
           cancelled := cancelled w @ filter (\<lambda>i. i \<noteq> k) [0 ..< length futs]\<rparr>)"
proof -
  have "\<forall>i < k. \<not> isl (outcome (fst (futs ! i))) \<and> snd (futs ! i) \<in> dom (files w1)"
    using ok k dispatch_staged(4)[OF d] by (metis nth_mem order_less_trans)
  from result_loop_first_failure[OF k e this, of futs]
  have "result_loop futs futs w1 =
      (Inl e, w1\<lparr>sink := sink w1 @ concat (map (\<lambda>p. the (files w1 (snd p))) (take k futs)),
                 cancelled := cancelled w1 @
                   map fid (filter (\<lambda>g. fid g \<noteq> fid (fst (futs ! k))) (map fst futs))\<rparr>)" .
  then show ?thesis
    using download_session[OF p m d] dispatch_ids[OF d k] dispatch_staged(1,2)[OF d]
    by simp
qed

lemma first_failure_exists:
  assumes "j < length futs" and "isl (outcome (fst (futs ! j)))"
  obtains k where "k \<le> j" and "isl (outcome (fst (futs ! k)))"
    and "\<forall>i < k. \<not> isl (outcome (fst (futs ! i)))"
proof -
  define k where "k = (LEAST i. isl (outcome (fst (futs ! i))))"
  have 1: "isl (outcome (fst (futs ! k)))" unfolding k_def using assms(2) by (rule LeastI)
  have 2: "k \<le> j" unfolding k_def using assms(2) by (rule Least_le)
  have 3: "\<forall>i < k. \<not> isl (outcome (fst (futs ! i)))"
    unfolding k_def using not_less_Least by blast
  from that[OF 2 1 3] show thesis .
qed

lemma dispatch_starts:
  assumes d: "dispatch urlopen mktemp url w c n = Some (futs, w1)" and ne: "futs \<noteq> []"
  shows "1 \<le> c" and "length (session_tasks w w1) = length futs"
    and "\<forall>i < length futs. fst (session_tasks w w1 ! i) = int i * c"
proof -
  from d obtain tasks fs where
    plan: "submit_loop mktemp c n 0 [] = Some tasks"
    and run: "executor_run urlopen url 0 tasks (files w) = (futs, fs)"
    and w1: "w1 = w\<lparr>files := fs, submitted := submitted w @ tasks\<rparr>"
    by (rule dispatch_parts)
  have len: "length futs = length tasks" using run by (rule executor_run_length)
  have st: "session_tasks w w1 = tasks" using w1 by (simp add: session_tasks_def)
  have n: "0 < n"
  proof (rule ccontr)
    assume "\<not> 0 < n"
    then have "submit_loop mktemp c n 0 [] = Some []" by (simp add: submit_loop_exit)
    with plan len ne show False by simp
  qed
  show c: "1 \<le> c"
  proof (rule ccontr)
    assume "\<not> 1 \<le> c"
    then have "submit_loop mktemp c n 0 [] = None" using n by (simp add: submit_loop_diverges)
    with plan show False by simp
  qed
  show "length (session_tasks w w1) = length futs" using st len by simp
  have "tasks = map (\<lambda>i. (int i * c, min (int i * c + c - 1) n, mktemp i))
                    [0 ..< nat ((n + c - 1) div c)]"
    using submit_loop_closed[OF c, of 0 n mktemp "[]"] n plan by simp
  then have "\<forall>i < length tasks. fst (tasks ! i) = int i * c"
    by simp
  then show "\<forall>i < length futs. fst (session_tasks w w1 ! i) = int i * c"
    using st len by simp
qed

subsection \<open>Test sessions\<close>

lemma probe_test_urlopen_3: "probe (test_urlopen (Some ''3'') bs k) url = Inr 3"
  by (simp add: probe_def test_urlopen_def default_opener_def test_server_def py_int_def
      strip_def is_space_def digit_val_def)

lemma probe_test_urlopen_4: "probe (test_urlopen (Some ''4'') bs k) url = Inr 4"
  by (simp add: probe_def test_urlopen_def default_opener_def test_server_def py_int_def
      strip_def is_space_def digit_val_def)

lemma probe_test_urlopen_6: "probe (test_urlopen (Some ''6'') bs k) url = Inr 6"
  by (simp add: probe_def test_urlopen_def default_opener_def test_server_def py_int_def
      strip_def is_space_def digit_val_def)

lemma plan_2_4:
  "submit_loop test_mktemp 2 4 0 [] = Some [(0, 1, ''/tmp/tmp''), (2, 3, ''/tmp/tmpx'')]"
  by (simp add: submit_loop_step submit_loop_exit test_mktemp_def)

lemma plan_2_6:
  "submit_loop test_mktemp 2 6 0 [] =
     Some [(0, 1, ''/tmp/tmp''), (2, 3, ''/tmp/tmpx''), (4, 5, ''/tmp/tmpxx'')]"
  by (simp add: submit_loop_step submit_loop_exit test_mktemp_def)

lemma plan_2_3:
  "submit_loop test_mktemp 2 3 0 [] = Some [(0, 1, ''/tmp/tmp''), (2, 3, ''/tmp/tmpx'')]"
  by (simp add: submit_loop_step submit_loop_exit test_mktemp_def)

lemma dispatch_test_urlopen_4:
  "dispatch (test_urlopen (Some ''4'') [1, 2, 3, 4] 2) test_mktemp ''u'' empty_world 2 4 =
     Some ([(Future 0 (Inr (0, 1)), ''/tmp/tmp''),
            (Future 1 (Inl (HTTPError 404 ''Not Found'')), ''/tmp/tmpx'')],
           \<lparr>files = [''/tmp/tmp'' \<mapsto> [1, 2]], sink = [],
            submitted = [(0, 1, ''/tmp/tmp''), (2, 3, ''/tmp/tmpx'')], cancelled = []\<rparr>)"
  by (simp add: dispatch_def plan_2_4 empty_world_def download_chunk_def test_urlopen_def
      default_opener_def test_server_def
      numeral_2_eq_2 numeral_3_eq_3)

lemma dispatch_test_urlopen_6:
  "dispatch (test_urlopen (Some ''6'') [1, 2, 3, 4, 5, 6] 2) test_mktemp ''u'' empty_world 2 6 =
     Some ([(Future 0 (Inr (0, 1)), ''/tmp/tmp''),
            (Future 1 (Inl (HTTPError 404 ''Not Found'')), ''/tmp/tmpx''),
            (Future 2 (Inl (HTTPError 404 ''Not Found'')), ''/tmp/tmpxx'')],
           \<lparr>files = [''/tmp/tmp'' \<mapsto> [1, 2]], sink = [],
            submitted = [(0, 1, ''/tmp/tmp''), (2, 3, ''/tmp/tmpx''), (4, 5, ''/tmp/tmpxx'')],
            cancelled = []\<rparr>)"
  by (simp add: dispatch_def plan_2_6 empty_world_def download_chunk_def test_urlopen_def
      default_opener_def test_server_def
      numeral_2_eq_2 numeral_3_eq_3)

lemma dispatch_test_urlopen_3:
  "dispatch (test_urlopen (Some ''3'') [1, 2, 3] 3) test_mktemp ''u'' empty_world 2 3 =
     Some ([(Future 0 (Inr (0, 1)), ''/tmp/tmp''),
            (Future 1 (Inr (2, 3)), ''/tmp/tmpx'')],
           \<lparr>files = [''/tmp/tmp'' \<mapsto> [1, 2], ''/tmp/tmpx'' \<mapsto> [3]], sink = [],
            submitted = [(0, 1, ''/tmp/tmp''), (2, 3, ''/tmp/tmpx'')], cancelled = []\<rparr>)"
  by (simp add: dispatch_def plan_2_3 empty_world_def download_chunk_def test_urlopen_def
      default_opener_def test_server_def
      numeral_2_eq_2 numeral_3_eq_3)

section \<open>The claims\<close>

subsection \<open>C1: the planned ranges\<close>

text \<open>
  C1 says that for \<open>totalSize = 2,500,000\<close> and \<open>chunkSize = 1,048,576\<close> the planned ranges are
  \<open>[0,1048575]\<close>, \<open>[1048576,2097151]\<close>, \<open>[2097152,2499999]\<close>, covering exactly
  \<open>[0, totalSize-1]\<close>. The loop of lines 39-45 clamps \<open>end\<close> to \<open>size\<close>, not to \<open>size - 1\<close>:
  the last range it plans is \<open>[2097152,2500000]\<close>, one byte past the end of the resource.
\<close>

theorem plan_clamps_to_size_not_last_byte:
  "submit_loop mktemp 1048576 2500000 0 [] =
     Some [(0, 1048575, mktemp 0), (1048576, 2097151, mktemp 1), (2097152, 2500000, mktemp 2)]"
  by (simp add: submit_loop_step submit_loop_exit numeral_2_eq_2)

subsection \<open>C2: the output of a failed session\<close>

text \<open>
  C2 says that when a session fails nothing has been written to the output. The loop of
  lines 46-55 writes each chunk as soon as its own future has been checked: on a resource
  of 4 bytes in chunks of 2 whose second fetch fails with status 404, \<open>download\<close> raises
  that error after it has written the first chunk, \<open>[1, 2]\<close>, to the output.
\<close>

theorem download_failure_after_partial_output:
  "download (test_urlopen (Some ''4'') [1, 2, 3, 4] 2) test_mktemp ''u'' empty_world 2 20 =
     Some (Inl (HTTPError 404 ''Not Found''),
           \<lparr>files = [''/tmp/tmp'' \<mapsto> [1, 2]], sink = [1, 2],
            submitted = [(0, 1, ''/tmp/tmp''), (2, 3, ''/tmp/tmpx'')], cancelled = [0]\<rparr>)"
  by (simp add: download_def probe_test_urlopen_4 dispatch_test_urlopen_4)

text \<open>
  C2, amended: when the first task to fail in range order is task \<open>k\<close>, \<open>download\<close>
  propagates its error, and the output then holds, after what it held before, the staged
  bytes of the chunks \<open>0 .. k-1\<close> in range order and nothing of the chunks from \<open>k\<close> on.
\<close>

theorem download_failure_sink:
  assumes "probe urlopen url = Inr n" and "0 < max_workers"
      and "dispatch urlopen mktemp url w chunk_size n = Some (futures, w1)"
      and "k < length futures" and "outcome (fst (futures ! k)) = Inl e"
      and "\<forall>i < k. \<not> isl (outcome (fst (futures ! i)))"
    shows "\<exists>w'. download urlopen mktemp url w chunk_size max_workers = Some (Inl e, w') \<and>
             sink w' = sink w @ concat (map (\<lambda>p. the (files w1 (snd p))) (take k futures))"
  using session_first_failure[OF assms] by simp

text \<open>C2, amended, on the session above: the second of two tasks fails.\<close>

theorem download_failure_sink_witness:
  "probe (test_urlopen (Some ''4'') [1, 2, 3, 4] 2) ''u'' = Inr 4 \<and>
   (\<exists>w'. download (test_urlopen (Some ''4'') [1, 2, 3, 4] 2) test_mktemp ''u'' empty_world 2 20 =
           Some (Inl (HTTPError 404 ''Not Found''), w') \<and>
         sink w' = [1, 2])"
  using download_failure_sink[OF probe_test_urlopen_4 _ dispatch_test_urlopen_4,
      of 20 1 "HTTPError 404 ''Not Found''"]
  by (simp add: probe_test_urlopen_4 empty_world_def)

subsection \<open>C3: failing fast\<close>

text \<open>
  C3 says that when a task fails, every task not yet in a terminal state receives a
  cancellation signal before the error is propagated. The script looks at the first
  future only after the \<open>with\<close> block, which waits for the whole pool: a failure stops no
  other task. On a resource of 6 bytes in chunks of 2, fetched by one worker, whose first
  fetch fails with status 404: when line 46 is reached the second and the third task,
  both still waiting when the first one failed, have run to their end and staged their
  chunks; \<open>download\<close> then calls \<open>cancel\<close> on their finished futures and raises the error.
\<close>

theorem download_failure_stops_no_task:
  "dispatch (test_urlopen_from (Some ''6'') [1, 2, 3, 4, 5, 6] 2) test_mktemp ''u'' empty_world 2 6 =
     Some ([(Future 0 (Inl (HTTPError 404 ''Not Found'')), ''/tmp/tmp''),
            (Future 1 (Inr (2, 3)), ''/tmp/tmpx''),
            (Future 2 (Inr (4, 5)), ''/tmp/tmpxx'')],
           \<lparr>files = [''/tmp/tmpx'' \<mapsto> [3, 4], ''/tmp/tmpxx'' \<mapsto> [5, 6]], sink = [],
            submitted = [(0, 1, ''/tmp/tmp''), (2, 3, ''/tmp/tmpx''), (4, 5, ''/tmp/tmpxx'')],
            cancelled = []\<rparr>) \<and>
   download (test_urlopen_from (Some ''6'') [1, 2, 3, 4, 5, 6] 2) test_mktemp ''u'' empty_world 2 1 =
     Some (Inl (HTTPError 404 ''Not Found''),
           \<lparr>files = [''/tmp/tmpx'' \<mapsto> [3, 4], ''/tmp/tmpxx'' \<mapsto> [5, 6]], sink = [],
            submitted = [(0, 1, ''/tmp/tmp''), (2, 3, ''/tmp/tmpx''), (4, 5, ''/tmp/tmpxx'')],
            cancelled = [1, 2]\<rparr>)"
proof -
  have p: "probe (test_urlopen_from (Some ''6'') [1, 2, 3, 4, 5, 6] 2) ''u'' = Inr 6"
    by (simp add: probe_def test_urlopen_from_def default_opener_def test_server_from_def
        py_int_def strip_def is_space_def digit_val_def)
  have d: "dispatch (test_urlopen_from (Some ''6'') [1, 2, 3, 4, 5, 6] 2) test_mktemp ''u''
             empty_world 2 6 =
     Some ([(Future 0 (Inl (HTTPError 404 ''Not Found'')), ''/tmp/tmp''),
            (Future 1 (Inr (2, 3)), ''/tmp/tmpx''),
            (Future 2 (Inr (4, 5)), ''/tmp/tmpxx'')],
           \<lparr>files = [''/tmp/tmpx'' \<mapsto> [3, 4], ''/tmp/tmpxx'' \<mapsto> [5, 6]], sink = [],
            submitted = [(0, 1, ''/tmp/tmp''), (2, 3, ''/tmp/tmpx''), (4, 5, ''/tmp/tmpxx'')],
            cancelled = []\<rparr>)"
    by (simp add: dispatch_def plan_2_6 empty_world_def download_chunk_def
        test_urlopen_from_def default_opener_def test_server_from_def
        numeral_2_eq_2 numeral_3_eq_3 eval_nat_numeral)
  show ?thesis
    by (simp add: d download_def p)
qed

subsection \<open>C4: a chunk size below 1\<close>

text \<open>
  C4 says that \<open>download\<close> with \<open>chunk_size = 0\<close> reports \<open>InvalidConfigurationError\<close>. The
  script does not check the chunk size: on a resource of 3 bytes, \<open>download\<close> with
  \<open>chunk_size = 0\<close> submits the range \<open>(0, -1)\<close> again and again, and never returns nor
  raises.
\<close>

theorem download_chunk_size_zero_never_returns:
  "download (test_urlopen (Some ''3'') [1, 2, 3] 3) test_mktemp ''http://host/f'' empty_world 0 1
     = None"
  by (simp add: download_def dispatch_def probe_test_urlopen_3 submit_loop_diverges)

subsection \<open>C5: the status of a ranged response\<close>

text \<open>
  C5 says that every status below 400 other than 206, "any non-partial 2xx/3xx", fails
  with \<open>UnsupportedRangeError\<close>. A status outside \<open>200 .. 299\<close> never reaches lines 20-23:
  when the final response to the ranged request has status 304, \<open>urlopen\<close> raises
  \<open>HTTPError\<close>, and \<open>download_chunk\<close> fails with that error and not with
  \<open>UnsupportedRangeError\<close>.
\<close>

theorem download_chunk_not_modified_is_http_error:
  "fst (download_chunk (default_opener (status_server 304 ''Not Modified'' [])) ''u'' 0 1 ''f''
          Map.empty) = Inl (HTTPError 304 ''Not Modified'') \<and>
   fst (download_chunk (default_opener (status_server 304 ''Not Modified'' [])) ''u'' 0 1 ''f''
          Map.empty) \<noteq> Inl UnsupportedRangeError"
  by (simp add: download_chunk_def default_opener_def status_server_def)

text \<open>
  C5, amended: for every final response to the ranged fetch of \<open>download_chunk\<close>, a status
  outside \<open>200 .. 299\<close> (every status of 400 or more, and every other status that is not a
  success) fails with the \<open>HTTPError\<close> of \<open>urlopen\<close>, which carries the status and the reason;
  a status in \<open>200 .. 299\<close> other than 206 fails with \<open>UnsupportedRangeError\<close>; in both cases
  nothing is staged; the fetch succeeds exactly when the status is 206.
\<close>

theorem download_chunk_status_default_opener:
  assumes "server url (Some (range_start, range_end)) = Inr res"
  shows "(status res < 200 \<or> 300 \<le> status res \<longrightarrow>
            download_chunk (default_opener server) url range_start range_end outfile fs =
              (Inl (HTTPError (status res) (reason res)), fs)) \<and>
         (200 \<le> status res \<and> status res < 300 \<and> status res \<noteq> 206 \<longrightarrow>
            download_chunk (default_opener server) url range_start range_end outfile fs =
              (Inl UnsupportedRangeError, fs)) \<and>
         (\<not> isl (fst (download_chunk (default_opener server) url range_start range_end
                          outfile fs)) \<longleftrightarrow>
            status res = 206)"
  using assms by (auto simp: download_chunk_def default_opener_def)

text \<open>
  C5, amended, on three responses: status 404 is an \<open>HTTPError\<close>, status 200 is an
  \<open>UnsupportedRangeError\<close>, and status 206 succeeds.
\<close>

theorem download_chunk_status_default_opener_witness:
  "download_chunk (default_opener (status_server 404 ''Not Found'' [])) ''u'' 0 1 ''f'' Map.empty =
     (Inl (HTTPError 404 ''Not Found''), Map.empty) \<and>
   download_chunk (default_opener (status_server 200 ''OK'' [1, 2, 3])) ''u'' 0 1 ''f'' Map.empty =
     (Inl UnsupportedRangeError, Map.empty) \<and>
   \<not> isl (fst (download_chunk (default_opener (status_server 206 ''Partial Content'' [1, 2]))
                  ''u'' 0 1 ''f'' Map.empty))"
proof -
  have a: "status_server 404 ''Not Found'' [] ''u'' (Some (0, 1)) =
      Inr \<lparr>status = 404, reason = ''Not Found'', content_length = None, body = []\<rparr>"
    by (simp add: status_server_def)
  have b: "status_server 200 ''OK'' [1, 2, 3] ''u'' (Some (0, 1)) =
      Inr \<lparr>status = 200, reason = ''OK'', content_length = None, body = [1, 2, 3]\<rparr>"
    by (simp add: status_server_def)
  have c: "status_server 206 ''Partial Content'' [1, 2] ''u'' (Some (0, 1)) =
      Inr \<lparr>status = 206, reason = ''Partial Content'', content_length = None, body = [1, 2]\<rparr>"
    by (simp add: status_server_def)
  show ?thesis
    using
      download_chunk_status_default_opener[where server = "status_server 404 ''Not Found'' []"
        and url = "''u''" and outfile = "''f''" and fs = Map.empty, OF a]
      download_chunk_status_default_opener[where server = "status_server 200 ''OK'' [1, 2, 3]"
        and url = "''u''" and outfile = "''f''" and fs = Map.empty, OF b]
      download_chunk_status_default_opener[where
        server = "status_server 206 ''Partial Content'' [1, 2]"
        and url = "''u''" and outfile = "''f''" and fs = Map.empty, OF c]
    by simp
qed

subsection \<open>C6: the body of a successful response\<close>

text \<open>
  C6 says that a body whose length differs from \<open>end - start + 1\<close> fails with
  \<open>TruncatedChunkError\<close>. \<open>download_chunk\<close> does not look at the length of what it read:
  asked for the two bytes \<open>2-3\<close> of a resource of three bytes, it receives the single byte
  3, stages it and succeeds.
\<close>

theorem download_chunk_accepts_short_body:
  "fst (download_chunk (test_urlopen (Some ''3'') [1, 2, 3] 3) ''u'' 2 3 ''f'' Map.empty) =
     Inr (2, 3) \<and>
   snd (download_chunk (test_urlopen (Some ''3'') [1, 2, 3] 3) ''u'' 2 3 ''f'' Map.empty) ''f'' =
     Some [3] \<and>
   int (length [3 :: byte]) \<noteq> 3 - 2 + 1"
  by (simp add: download_chunk_def test_urlopen_def default_opener_def test_server_def
      numeral_2_eq_2)

text \<open>
  C6, amended: for every response with status 206, \<open>download_chunk\<close> reads the entire body
  and persists it to the staging location before it returns the range, whatever the
  length of the body; no other file is touched.
\<close>

theorem download_chunk_persists_whole_body:
  assumes "urlopen url (Some (range_start, range_end)) = Inr res" and "status res = 206"
  shows "download_chunk urlopen url range_start range_end outfile fs =
           (Inr (range_start, range_end), fs(outfile \<mapsto> body res))"
  using assms by (simp add: download_chunk_def)

text \<open>C6, amended, on the response to the range \<open>2-3\<close> of the three-byte resource.\<close>

theorem download_chunk_persists_whole_body_witness:
  "test_urlopen (Some ''3'') [1, 2, 3] 3 ''u'' (Some (2, 3)) =
     Inr \<lparr>status = 206, reason = ''Partial Content'', content_length = None,
          body = [3]\<rparr> \<and>
   download_chunk (test_urlopen (Some ''3'') [1, 2, 3] 3) ''u'' 2 3 ''f'' Map.empty =
     (Inr (2, 3), [''f'' \<mapsto> [3]])"
proof -
  have a: "test_urlopen (Some ''3'') [1, 2, 3] 3 ''u'' (Some (2, 3)) =
     Inr \<lparr>status = 206, reason = ''Partial Content'', content_length = None,
          body = [3]\<rparr>"
    by (simp add: test_urlopen_def default_opener_def test_server_def numeral_2_eq_2)
  show ?thesis
    using a download_chunk_persists_whole_body[where urlopen = "test_urlopen (Some ''3'') [1, 2, 3] 3"
        and url = "''u''" and outfile = "''f''" and fs = Map.empty, OF a]
    by simp
qed

subsection \<open>C7: a probe without a length\<close>

text \<open>
  C7: when the probe response has no \<open>content-length\<close> header (or an empty one),
  \<open>download\<close> fails with \<open>SizeUnknownError\<close> and the world is as it was: no task has been
  submitted, no file staged, nothing written to the output.
\<close>

theorem download_size_unknown:
  assumes "urlopen url None = Inr head_res"
      and "content_length head_res = None \<or> content_length head_res = Some []"
  shows "download urlopen mktemp url w chunk_size max_workers = Some (Inl SizeUnknownError, w)"
  using assms by (auto simp: download_def probe_def)

text \<open>C7, on a server that sends no \<open>content-length\<close>.\<close>

theorem download_size_unknown_witness:
  "test_urlopen None [1, 2, 3] 3 ''u'' None =
     Inr \<lparr>status = 200, reason = ''OK'', content_length = None,
          body = [1, 2, 3]\<rparr> \<and>
   download (test_urlopen None [1, 2, 3] 3) test_mktemp ''u'' empty_world 2 1 =
     Some (Inl SizeUnknownError, empty_world)"
proof -
  have a: "test_urlopen None [1, 2, 3] 3 ''u'' None =
      Inr \<lparr>status = 200, reason = ''OK'', content_length = None,
           body = [1, 2, 3]\<rparr>"
    by (simp add: test_urlopen_def default_opener_def test_server_def)
  show ?thesis
    using a download_size_unknown[where urlopen = "test_urlopen None [1, 2, 3] 3" and url = "''u''"
        and mktemp = test_mktemp and w = empty_world and chunk_size = 2 and max_workers = 1, OF a]
    by simp
qed

subsection \<open>C8: the staging files\<close>

text \<open>
  C8 says that the staging storage of a chunk is removed once the chunk is copied, and
  that no staging artifact remains when the session ends. The script never removes a
  file: after a successful session on a resource of 3 bytes in chunks of 2, both staging
  files are still there.
\<close>

theorem download_keeps_files_after_success:
  "download (test_urlopen (Some ''3'') [1, 2, 3] 3) test_mktemp ''u'' empty_world 2 20 =
     Some (Inr (),
           \<lparr>files = [''/tmp/tmp'' \<mapsto> [1, 2], ''/tmp/tmpx'' \<mapsto> [3]], sink = [1, 2, 3],
            submitted = [(0, 1, ''/tmp/tmp''), (2, 3, ''/tmp/tmpx'')], cancelled = []\<rparr>)"
  by (simp add: download_def probe_test_urlopen_3 dispatch_test_urlopen_3)

text \<open>
  C8, amended: \<open>download\<close> never removes staging storage. When a session ends, in success or
  in failure, the file system is as the pool left it: every staging file written by a
  successful fetch of the session is still present, and no file that existed before the
  session is gone.
\<close>

theorem download_keeps_staging_files:
  assumes "probe urlopen url = Inr n" and "0 < max_workers"
      and "dispatch urlopen mktemp url w chunk_size n = Some (futures, w1)"
    shows "\<exists>r w'. download urlopen mktemp url w chunk_size max_workers = Some (r, w') \<and>
             files w' = files w1 \<and> dom (files w) \<subseteq> dom (files w') \<and>
             (\<forall>p \<in> set futures. \<not> isl (outcome (fst p)) \<longrightarrow> snd p \<in> dom (files w'))"
proof -
  obtain r w' where r: "result_loop futures futures w1 = (r, w')" by fastforce
  have "files w' = files w1" using result_loop_files[OF r] by simp
  with download_session[OF assms] r dispatch_staged(3,4)[OF assms(3)] show ?thesis by auto
qed

text \<open>
  C8, amended, on the failed session of C2: the staging file of the first chunk is still
  there after the abort.
\<close>

theorem download_keeps_staging_files_witness:
  "probe (test_urlopen (Some ''4'') [1, 2, 3, 4] 2) ''u'' = Inr 4 \<and>
   (\<exists>r w'. download (test_urlopen (Some ''4'') [1, 2, 3, 4] 2) test_mktemp ''u'' empty_world 2 20 =
           Some (r, w') \<and> ''/tmp/tmp'' \<in> dom (files w'))"
  using download_keeps_staging_files[OF probe_test_urlopen_4 _ dispatch_test_urlopen_4, of 20]
  by (simp add: probe_test_urlopen_4) blast

subsection \<open>C9: an empty resource\<close>

text \<open>
  C9: when the probe gives \<open>totalSize = 0\<close>, \<open>download\<close> returns normally for every
  \<open>chunkSize >= 1\<close> and \<open>maxWorkers >= 1\<close>, and the world is as it was: no task has been
  submitted and nothing has been written to the output.
\<close>

theorem download_empty_resource:
  assumes "probe urlopen url = Inr 0" and "1 \<le> chunk_size" and "1 \<le> max_workers"
  shows "download urlopen mktemp url w chunk_size max_workers = Some (Inr (), w)"
  using assms by (simp add: download_def dispatch_def submit_loop_exit)

text \<open>C9, on a server whose \<open>content-length\<close> is \<open>0\<close>, with the default chunk size and pool.\<close>

theorem download_empty_resource_witness:
  "probe (test_urlopen (Some ''0'') [] 0) ''u'' = Inr 0 \<and>
   download (test_urlopen (Some ''0'') [] 0) test_mktemp ''u'' empty_world 1048576 20 =
     Some (Inr (), empty_world)"
proof -
  have a: "probe (test_urlopen (Some ''0'') [] 0) ''u'' = Inr 0"
    by (simp add: probe_def test_urlopen_def default_opener_def test_server_def py_int_def
      strip_def is_space_def digit_val_def)
  show ?thesis
    using a download_empty_resource[OF a, of 1048576 20 test_mktemp empty_world] by simp
qed

subsection \<open>C10: which error is reported\<close>

text \<open>
  C10: when some tasks fail, the error \<open>download\<close> propagates is the error of a failed task
  \<open>k\<close> whose range start is smaller than the range start of every other failed task, and
  the staged chunks of all the tasks before \<open>k\<close> in range order have been written to the
  output when the error is raised.
\<close>

theorem download_reports_first_failure_in_range_order:
  assumes "probe urlopen url = Inr n" and "0 < max_workers"
      and "dispatch urlopen mktemp url w chunk_size n = Some (futures, w1)"
      and "j < length futures" and "isl (outcome (fst (futures ! j)))"
    shows "\<exists>k e w'. k < length futures \<and> outcome (fst (futures ! k)) = Inl e \<and>
             download urlopen mktemp url w chunk_size max_workers = Some (Inl e, w') \<and>
             (\<forall>i < length futures. i \<noteq> k \<and> isl (outcome (fst (futures ! i))) \<longrightarrow>
                fst (session_tasks w w1 ! k) < fst (session_tasks w w1 ! i)) \<and>
             sink w' = sink w @ concat (map (\<lambda>p. the (files w1 (snd p))) (take k futures))"
proof -
  from first_failure_exists[OF assms(4,5)] obtain k where
    kj: "k \<le> j" and f: "isl (outcome (fst (futures ! k)))"
    and ok: "\<forall>i < k. \<not> isl (outcome (fst (futures ! i)))" by blast
  from f obtain e where e: "outcome (fst (futures ! k)) = Inl e"
    by (cases "outcome (fst (futures ! k))") auto
  have k: "k < length futures" using kj assms(4) by simp
  have ne: "futures \<noteq> []" using k by auto
  note st = dispatch_starts[OF assms(3) ne]
  have "fst (session_tasks w w1 ! k) < fst (session_tasks w w1 ! i)"
    if "i < length futures" and "i \<noteq> k" and "isl (outcome (fst (futures ! i)))" for i
  proof -
    have "k < i" using that ok by (metis linorder_neqE_nat)
    then have "int k * chunk_size < int i * chunk_size" using st(1) by simp
    then show ?thesis using st(3) that(1) k by simp
  qed
  with session_first_failure[OF assms(1,2,3) k e ok] k e show ?thesis by auto
qed

text \<open>
  C10, on a resource of 6 bytes in chunks of 2 whose fetches at offsets 2 and 4 both fail:
  the error is
  that of the task at offset 2, raised after the chunk at offset 0 has been written.
\<close>

theorem download_reports_first_failure_in_range_order_witness:
  "probe (test_urlopen (Some ''6'') [1, 2, 3, 4, 5, 6] 2) ''u'' = Inr 6 \<and>
   (\<exists>w'. download (test_urlopen (Some ''6'') [1, 2, 3, 4, 5, 6] 2) test_mktemp ''u'' empty_world 2 20 =
           Some (Inl (HTTPError 404 ''Not Found''), w') \<and> sink w' = [1, 2])"
proof -
  let ?e = "HTTPError 404 ''Not Found''"
  let ?futures = "[(Future 0 (Inr (0, 1)), ''/tmp/tmp''), (Future 1 (Inl ?e), ''/tmp/tmpx''),
                   (Future 2 (Inl ?e), ''/tmp/tmpxx'')]"
  let ?w1 = "\<lparr>files = [''/tmp/tmp'' \<mapsto> [1, 2 :: byte]], sink = [],
            submitted = [(0, 1, ''/tmp/tmp''), (2, 3, ''/tmp/tmpx''), (4, 5, ''/tmp/tmpxx'')],
            cancelled = []\<rparr>"
  have m: "(0::int) < 20" by simp
  have j: "2 < length ?futures" by simp
  have f: "isl (outcome (fst (?futures ! 2)))" by simp
  from download_reports_first_failure_in_range_order
         [OF probe_test_urlopen_6 m dispatch_test_urlopen_6 j f]
  obtain k e w' where
    k: "k < length ?futures" and e: "outcome (fst (?futures ! k)) = Inl e"
    and dl: "download (test_urlopen (Some ''6'') [1, 2, 3, 4, 5, 6] 2) test_mktemp ''u'' empty_world 2 20 =
       Some (Inl e, w')"
    and first: "\<forall>i < length ?futures. i \<noteq> k \<and> isl (outcome (fst (?futures ! i))) \<longrightarrow>
       fst (session_tasks empty_world ?w1 ! k) < fst (session_tasks empty_world ?w1 ! i)"
    and s: "sink w' = sink empty_world @ concat (map (\<lambda>p. the (files ?w1 (snd p))) (take k ?futures))"
    by (elim exE conjE) (rule that, assumption+)
  from k have "k = 0 \<or> k = 1 \<or> k = 2" by auto
  then have k1: "k = 1"
  proof (elim disjE)
    assume "k = 0"
    with e show ?thesis by simp
  next
    assume "k = 1"
    then show ?thesis .
  next
    assume k2: "k = 2"
    have "1 < length ?futures \<and> 1 \<noteq> k \<and> isl (outcome (fst (?futures ! 1)))" using k2 by simp
    with first have "fst (session_tasks empty_world ?w1 ! k) < fst (session_tasks empty_world ?w1 ! 1)"
      by blast
    with k2 show ?thesis by (simp add: session_tasks_def empty_world_def)
  qed
  from e k1 have "e = ?e" by simp
  moreover from s k1 have "sink w' = [1, 2]" by (simp add: empty_world_def)
  ultimately show ?thesis using dl by (simp add: probe_test_urlopen_6)
qed

end
